theory Spec2Isabelle
  imports Complex_Main
begin

section \<open>JavaScript numbers\<close>

text \<open>
  The component computes with JavaScript numbers. A number is modelled as \<open>NaN\<close>, one of
  the two infinities, or a finite value. Finite values are real numbers: rounding to the
  nearest double and the sign of zero are not modelled, every special-value rule of the
  operators the component uses is.
\<close>

datatype number = NaN | PosInf | NegInf | Fin real

text \<open>Truthiness of a number (\<^verbatim>\<open>a && b\<close>, \<^verbatim>\<open>!!loop\<close>): \<open>NaN\<close> and zero are falsy.\<close>

fun ToBoolean :: "number \<Rightarrow> bool" where
  "ToBoolean NaN = False"
| "ToBoolean (Fin r) = (r \<noteq> 0)"
| "ToBoolean PosInf = True"
| "ToBoolean NegInf = True"

text \<open>\<^verbatim>\<open>a < b\<close>: false as soon as one side is \<open>NaN\<close>.\<close>

fun js_lt :: "number \<Rightarrow> number \<Rightarrow> bool" where
  "js_lt NaN b = False"
| "js_lt a NaN = False"
| "js_lt PosInf b = False"
| "js_lt NegInf NegInf = False"
| "js_lt NegInf b = True"
| "js_lt (Fin a) PosInf = True"
| "js_lt (Fin a) NegInf = False"
| "js_lt (Fin a) (Fin b) = (a < b)"

text \<open>\<^verbatim>\<open>a >= b\<close>: false as soon as one side is \<open>NaN\<close>.\<close>

fun js_ge :: "number \<Rightarrow> number \<Rightarrow> bool" where
  "js_ge NaN b = False"
| "js_ge a NaN = False"
| "js_ge a b = (\<not> js_lt a b)"

fun js_neg :: "number \<Rightarrow> number" where
  "js_neg NaN = NaN"
| "js_neg PosInf = NegInf"
| "js_neg NegInf = PosInf"
| "js_neg (Fin a) = Fin (- a)"

fun js_add :: "number \<Rightarrow> number \<Rightarrow> number" where
  "js_add NaN b = NaN"
| "js_add a NaN = NaN"
| "js_add PosInf NegInf = NaN"
| "js_add NegInf PosInf = NaN"
| "js_add PosInf b = PosInf"
| "js_add NegInf b = NegInf"
| "js_add (Fin a) PosInf = PosInf"
| "js_add (Fin a) NegInf = NegInf"
| "js_add (Fin a) (Fin b) = Fin (a + b)"

definition js_sub :: "number \<Rightarrow> number \<Rightarrow> number" where
  "js_sub a b = js_add a (js_neg b)"

text \<open>The sign of an infinite product or quotient.\<close>

definition signed_inf :: "bool \<Rightarrow> number" where
  "signed_inf positive = (if positive then PosInf else NegInf)"

fun js_mul :: "number \<Rightarrow> number \<Rightarrow> number" where
  "js_mul NaN b = NaN"
| "js_mul a NaN = NaN"
| "js_mul PosInf PosInf = PosInf"
| "js_mul PosInf NegInf = NegInf"
| "js_mul NegInf PosInf = NegInf"
| "js_mul NegInf NegInf = PosInf"
| "js_mul PosInf (Fin b) = (if b = 0 then NaN else signed_inf (0 < b))"
| "js_mul NegInf (Fin b) = (if b = 0 then NaN else signed_inf (b < 0))"
| "js_mul (Fin a) PosInf = (if a = 0 then NaN else signed_inf (0 < a))"
| "js_mul (Fin a) NegInf = (if a = 0 then NaN else signed_inf (a < 0))"
| "js_mul (Fin a) (Fin b) = Fin (a * b)"

text \<open>
  Division. A finite nonzero value divided by zero is an infinity, zero divided by zero
  is \<open>NaN\<close>; the divisor zero is taken as positive zero.
\<close>

fun js_div :: "number \<Rightarrow> number \<Rightarrow> number" where
  "js_div NaN b = NaN"
| "js_div a NaN = NaN"
| "js_div PosInf PosInf = NaN"
| "js_div PosInf NegInf = NaN"
| "js_div NegInf PosInf = NaN"
| "js_div NegInf NegInf = NaN"
| "js_div PosInf (Fin b) = signed_inf (0 \<le> b)"
| "js_div NegInf (Fin b) = signed_inf (b < 0)"
| "js_div (Fin a) PosInf = Fin 0"
| "js_div (Fin a) NegInf = Fin 0"
| "js_div (Fin a) (Fin b) =
     (if b = 0 then (if a = 0 then NaN else signed_inf (0 < a)) else Fin (a / b))"


fun Number_isFinite :: "number \<Rightarrow> bool" where
  "Number_isFinite (Fin a) = True"
| "Number_isFinite a = False"

section \<open>Props and state of the component\<close>

datatype direction = Left | Right | Up | Down

text \<open>
  A style value is a string, or a template literal with one number in it:
  \<open>Template pre n post\<close> is \<^verbatim>\<open>`pre${n}post`\<close>, so \<open>Template [] n ''px''\<close> is
  \<^verbatim>\<open>`${n}px`\<close>.
\<close>

datatype css_value = Str string | Template string number string

text \<open>A style object: property name to value.\<close>

type_synonym css_style = "string \<Rightarrow> css_value option"

text \<open>\<^verbatim>\<open>gradientWidth?: number | string\<close>\<close>

datatype num_or_str = Num number | S string

text \<open>A callback prop is known by the identity of its function object.\<close>

type_synonym callback = nat

text \<open>
  The props both variants share, after the defaults of the parameter list are filled in.
  \<open>'n\<close> is the type of a child node.
\<close>

record 'n marquee_props =
  style :: css_style
  className :: string
  autoFill :: bool
  play :: bool
  pauseOnHover :: bool
  pauseOnClick :: bool
  direction :: direction
  speed :: number
  delay :: number
  loop :: number
  gradient :: bool
  gradientColor :: string
  gradientWidth :: num_or_str
  onFinish :: "callback option"
  onCycleComplete :: "callback option"
  onMount :: "callback option"
  children :: "'n list"

text \<open>
  Variant 1 (the first component of the file) adds the dark-mode gradient block,
  \<^verbatim>\<open>{ enabled: boolean; color: string; gradientWidth?: number } | null\<close>.
\<close>

record dark_mode_gradient =
  enabled :: bool
  color :: string
  dm_gradientWidth :: "number option"

record 'n props_v1 = "'n marquee_props" +
  darkModeGradient :: "dark_mode_gradient option"

text \<open>Variant 2 (the second component of the file) adds \<^verbatim>\<open>draggable\<close>.\<close>

record 'n props_v2 = "'n marquee_props" +
  draggable :: bool

text \<open>The defaults of the two parameter lists, with no callback and no child.\<close>

definition default_props_v1 :: "'n props_v1" where
  "default_props_v1 =
     \<lparr>style = Map.empty, className = [], autoFill = False, play = True,
      pauseOnHover = False, pauseOnClick = False, direction = Left, speed = Fin 50,
      delay = Fin 0, loop = Fin 0, gradient = False, gradientColor = ''white'',
      gradientWidth = Num (Fin 200), onFinish = None, onCycleComplete = None,
      onMount = None, children = [], darkModeGradient = None\<rparr>"

definition default_props_v2 :: "'n props_v2" where
  "default_props_v2 =
     \<lparr>style = Map.empty, className = [], autoFill = False, play = True,
      pauseOnHover = False, pauseOnClick = False, direction = Left, speed = Fin 50,
      delay = Fin 0, loop = Fin 0, gradient = False, gradientColor = ''white'',
      gradientWidth = Num (Fin 200), onFinish = None, onCycleComplete = None,
      onMount = None, children = [], draggable = False\<rparr>"


text \<open>The \<^verbatim>\<open>useState\<close> cells both variants share.\<close>

record marquee_state =
  containerWidth :: number
  marqueeWidth :: number
  multiplier :: number
  isMounted :: bool

definition initial_state :: marquee_state where
  "initial_state =
     \<lparr>containerWidth = Fin 0, marqueeWidth = Fin 0, multiplier = Fin 1, isMounted = False\<rparr>"

section \<open>Sizing and the auto-fill multiplier\<close>





section \<open>Animation duration\<close>

text \<open>The \<^verbatim>\<open>duration\<close> memo, the same in both variants.\<close>

definition duration ::
  "('n, 'a) marquee_props_scheme \<Rightarrow> 'b marquee_state_scheme \<Rightarrow> number" where
  "duration p st =
     (if autoFill p then js_div (js_mul (marqueeWidth st) (multiplier st)) (speed p)
      else if js_lt (marqueeWidth st) (containerWidth st)
           then js_div (containerWidth st) (speed p)
           else js_div (marqueeWidth st) (speed p))"

section \<open>Style parameters\<close>

text \<open>
  \<^verbatim>\<open>containerStyle\<close> of variant 1: the caller's \<^verbatim>\<open>style\<close> is spread first, the four
  custom properties are written over it.
\<close>

definition containerStyle_v1 :: "('n, 'a) props_v1_scheme \<Rightarrow> css_style" where
  "containerStyle_v1 p =
     (style p)
       (''--pause-on-hover'' \<mapsto>
          (if \<not> play p \<or> pauseOnHover p then Str ''paused'' else Str ''running''),
        ''--pause-on-click'' \<mapsto>
          (if \<not> play p \<or> (pauseOnHover p \<and> \<not> pauseOnClick p) \<or> pauseOnClick p
           then Str ''paused'' else Str ''running''),
        ''--width'' \<mapsto>
          (if direction p = Up \<or> direction p = Down then Str ''100vh'' else Str ''100%''),
        ''--transform'' \<mapsto>
          (if direction p = Up then Str ''rotate(-90deg)''
           else if direction p = Down then Str ''rotate(90deg)''
           else Str ''none''))"

text \<open>\<^verbatim>\<open>containerStyle\<close> of variant 2: \<^verbatim>\<open>draggable\<close> joins the click condition.\<close>

definition containerStyle_v2 :: "('n, 'a) props_v2_scheme \<Rightarrow> css_style" where
  "containerStyle_v2 p =
     (style p)
       (''--pause-on-hover'' \<mapsto>
          (if \<not> play p \<or> pauseOnHover p then Str ''paused'' else Str ''running''),
        ''--pause-on-click'' \<mapsto>
          (if \<not> play p \<or> (pauseOnHover p \<and> \<not> pauseOnClick p) \<or> pauseOnClick p
              \<or> draggable p
           then Str ''paused'' else Str ''running''),
        ''--width'' \<mapsto>
          (if direction p = Up \<or> direction p = Down then Str ''100vh'' else Str ''100%''),
        ''--transform'' \<mapsto>
          (if direction p = Up then Str ''rotate(-90deg)''
           else if direction p = Down then Str ''rotate(90deg)''
           else Str ''none''))"

text \<open>\<^verbatim>\<open>typeof w === "number" ? `${w}px` : w\<close>\<close>

fun width_value :: "num_or_str \<Rightarrow> css_value" where
  "width_value (Num n) = Template [] n ''px''"
| "width_value (S s) = Str s"

text \<open>
  \<^verbatim>\<open>gradientStyle\<close> of variant 1. \<^verbatim>\<open>darkModeGradient?.enabled ?? false\<close> is false for
  \<^verbatim>\<open>null\<close>; \<^verbatim>\<open>darkModeGradient?.color\<close> is undefined for \<^verbatim>\<open>null\<close>, which is the entry
  \<open>None\<close> of the style; \<^verbatim>\<open>darkModeGradient?.gradientWidth ?? gradientWidth\<close> falls back to
  the base width when the block is \<^verbatim>\<open>null\<close> or gives no width.
\<close>

definition gradientStyle_v1 :: "('n, 'a) props_v1_scheme \<Rightarrow> css_style" where
  "gradientStyle_v1 p =
     (let darkModeEnabled =
            (case darkModeGradient p of None \<Rightarrow> False | Some d \<Rightarrow> enabled d);
          finalColor =
            (if darkModeEnabled
             then (case darkModeGradient p of None \<Rightarrow> None | Some d \<Rightarrow> Some (Str (color d)))
             else Some (Str (gradientColor p)));
          finalWidth =
            (if darkModeEnabled
             then (case darkModeGradient p of
                     None \<Rightarrow> gradientWidth p
                   | Some d \<Rightarrow>
                       (case dm_gradientWidth d of
                          None \<Rightarrow> gradientWidth p
                        | Some w \<Rightarrow> Num w))
             else gradientWidth p)
      in Map.empty
           (''--gradient-color'' := finalColor,
            ''--gradient-width'' \<mapsto> width_value finalWidth))"

definition gradientStyle_v2 :: "('n, 'a) props_v2_scheme \<Rightarrow> css_style" where
  "gradientStyle_v2 p =
     Map.empty
       (''--gradient-color'' \<mapsto> Str (gradientColor p),
        ''--gradient-width'' \<mapsto> width_value (gradientWidth p))"

text \<open>\<^verbatim>\<open>marqueeStyle\<close> and \<^verbatim>\<open>childStyle\<close>, the same in both variants.\<close>

definition marqueeStyle ::
  "('n, 'a) marquee_props_scheme \<Rightarrow> 'b marquee_state_scheme \<Rightarrow> css_style" where
  "marqueeStyle p st =
     Map.empty
       (''--play'' \<mapsto> (if play p then Str ''running'' else Str ''paused''),
        ''--direction'' \<mapsto> (if direction p = Left then Str ''normal'' else Str ''reverse''),
        ''--duration'' \<mapsto> Template [] (duration p st) ''s'',
        ''--delay'' \<mapsto> Template [] (delay p) ''s'',
        ''--iteration-count'' \<mapsto>
          (if ToBoolean (loop p) then Template [] (loop p) [] else Str ''infinite''),
        ''--min-width'' \<mapsto> (if autoFill p then Str ''auto'' else Str ''100%''))"

definition childStyle :: "('n, 'a) marquee_props_scheme \<Rightarrow> css_style" where
  "childStyle p =
     Map.empty
       (''--transform'' \<mapsto>
          (if direction p = Up then Str ''rotate(90deg)''
           else if direction p = Down then Str ''rotate(-90deg)''
           else Str ''none''))"

section \<open>Rendering the copies\<close>

datatype js_error = RangeError | TypeError

text \<open>
  \<^verbatim>\<open>Array(len)\<close> with a number: an array of \<open>len\<close> holes when \<open>len\<close> is an integer from
  \<open>0\<close> to \<open>2^32 - 1\<close>, and \<^verbatim>\<open>RangeError: Invalid array length\<close> for every other number.
\<close>

fun Array_of_length :: "number \<Rightarrow> js_error + nat" where
  "Array_of_length (Fin r) =
     (if 0 \<le> r \<and> r < 2 ^ 32 \<and> r = of_int \<lfloor>r\<rfloor> then Inr (nat \<lfloor>r\<rfloor>) else Inl RangeError)"
| "Array_of_length n = Inl RangeError"

text \<open>A rendered \<^verbatim>\<open><div style={childStyle} className="rfm-child">\<close> around a child.\<close>

datatype 'n rfm_child = RfmChild css_style 'n

text \<open>A rendered \<^verbatim>\<open><Fragment key={i}>\<close> with its wrapped children.\<close>

datatype 'n fragment = Fragment nat "'n rfm_child list"

text \<open>
  \<^verbatim>\<open>multiplyChildren\<close>, the same in both variants: the spread of the array turns its holes
  into elements, so \<^verbatim>\<open>map\<close> runs once for every index below the length.
\<close>

definition multiplyChildren ::
  "('n, 'a) marquee_props_scheme \<Rightarrow> number \<Rightarrow> js_error + 'n fragment list" where
  "multiplyChildren p n =
     (case Array_of_length (if Number_isFinite n \<and> js_ge n (Fin 0) then n else Fin 0) of
        Inl e \<Rightarrow> Inl e
      | Inr len \<Rightarrow>
          Inr (map (\<lambda>i. Fragment i (map (\<lambda>child. RfmChild (childStyle p) child) (children p)))
                 [0..<len]))"

section \<open>The mount callback\<close>

text \<open>
  The life of a mounted instance is the list of its commits, each with the props it was
  rendered with. \<^verbatim>\<open>useEffect(effect, deps)\<close> runs the effect after the first commit, and
  after a later commit when a dependency is not the one of the commit before. \<open>prev\<close> is
  the dependency list of the commit before, \<open>None\<close> before the first commit; the result
  lists what the effect runs did, in order.
\<close>

fun useEffect :: "('p \<Rightarrow> 'c list) \<Rightarrow> ('p \<Rightarrow> 'd list) \<Rightarrow> 'd list option \<Rightarrow> 'p list \<Rightarrow> 'c list" where
  "useEffect effect deps prev [] = []"
| "useEffect effect deps prev (p # ps) =
     (if (case prev of None \<Rightarrow> True | Some d \<Rightarrow> d \<noteq> deps p) then effect p else [])
     @ useEffect effect deps (Some (deps p)) ps"

text \<open>The body of the effect: \<^verbatim>\<open>if (typeof onMount === "function") onMount()\<close>.\<close>

definition onMount_effect :: "('n, 'a) marquee_props_scheme \<Rightarrow> callback list" where
  "onMount_effect p = (case onMount p of None \<Rightarrow> [] | Some f \<Rightarrow> [f])"

text \<open>Variant 1 gives the effect the dependency list \<^verbatim>\<open>[onMount]\<close>, variant 2 gives \<^verbatim>\<open>[]\<close>.\<close>

definition onMount_calls_v1 :: "('n, 'a) props_v1_scheme list \<Rightarrow> callback list" where
  "onMount_calls_v1 commits = useEffect onMount_effect (\<lambda>p. [onMount p]) None commits"

definition onMount_calls_v2 :: "('n, 'a) props_v2_scheme list \<Rightarrow> callback list" where
  "onMount_calls_v2 commits = useEffect onMount_effect (\<lambda>p. ([] :: unit list)) None commits"

section \<open>The drag controller of variant 2\<close>

subsection \<open>Reading the position of the running animation\<close>






text \<open>\<^verbatim>\<open>s.split(", ")\<close>; \<open>acc\<close> holds the piece being read, reversed.\<close>

fun split_comma_space :: "string \<Rightarrow> string \<Rightarrow> string list" where
  "split_comma_space acc [] = [rev acc]"
| "split_comma_space acc (c # cs) =
     (if c = CHR '','' then
        (case cs of
           [] \<Rightarrow> split_comma_space (c # acc) cs
         | d # ds \<Rightarrow>
             if d = CHR '' '' then rev acc # split_comma_space [] ds
             else split_comma_space (c # acc) cs)
      else split_comma_space (c # acc) cs)"

text \<open>\<^verbatim>\<open>pieces.join(", ")\<close>, to say what the split keeps.\<close>

fun join_comma_space :: "string list \<Rightarrow> string" where
  "join_comma_space [] = []"
| "join_comma_space [x] = x"
| "join_comma_space (x # y # ys) = x @ '', '' @ join_comma_space (y # ys)"




subsection \<open>The gesture\<close>

record drag_state = marquee_state +
  isDragging :: bool
  dragStartPos :: number
  animationPosition :: number
  currentDragOffset :: number

definition initial_state_v2 :: drag_state where
  "initial_state_v2 =
     \<lparr>containerWidth = Fin 0, marqueeWidth = Fin 0, multiplier = Fin 1, isMounted = False,
      isDragging = False, dragStartPos = Fin 0, animationPosition = Fin 0,
      currentDragOffset = Fin 0\<rparr>"









section \<open>Verification: sizing, duration and copies\<close>















lemma Array_of_length_nat:
  assumes "k < 2 ^ 32"
  shows "Array_of_length (Fin (of_nat k)) = Inr k"
proof -
  have "real k < 2 ^ 32"
    using assms by (metis of_nat_less_iff of_nat_numeral of_nat_power)
  then show ?thesis by simp
qed

text \<open>
  What the component passes to \<^verbatim>\<open>multiplyChildren\<close> is the stored multiplier and the
  stored multiplier less one. A stored count below \<open>2^32\<close> renders that many copies in
  the second track and one copy fewer, next to the measured original, in the first.
\<close>

lemma multiplyChildren_stored_multiplier:
  assumes "1 \<le> k" and "k < 2 ^ 32" and "multiplier st = Fin (of_nat k)"
  shows "\<exists>first second.
           multiplyChildren p (js_sub (multiplier st) (Fin 1)) = Inr first
           \<and> multiplyChildren p (multiplier st) = Inr second
           \<and> length first = k - 1 \<and> length second = k"
proof -
  have "js_sub (multiplier st) (Fin 1) = Fin (of_nat (k - 1))"
    using assms(1,3) by (simp add: js_sub_def of_nat_diff)
  moreover have "k - 1 < 2 ^ 32" using assms(2) by simp
  ultimately show ?thesis
    using assms(2,3) Array_of_length_nat [of k] Array_of_length_nat [of "k - 1"]
    by (simp add: multiplyChildren_def)
qed




section \<open>Verification: style parameters\<close>

text \<open>
  Claim C5. In variant 1, with \<^verbatim>\<open>darkModeGradient = {enabled: true, color: c, gradientWidth: w}\<close>
  the gradient style has colour \<open>c\<close> and width \<^verbatim>\<open>`${w}px`\<close>, and the base
  \<^verbatim>\<open>gradientColor\<close> and \<^verbatim>\<open>gradientWidth\<close> have no influence on it. With
  \<^verbatim>\<open>darkModeGradient\<close> \<^verbatim>\<open>null\<close> or not enabled, the style has the base colour and the base
  width (a number with \<^verbatim>\<open>px\<close> appended, a string as it is).
\<close>

theorem gradientStyle_dark_mode:
  "(darkModeGradient p = Some \<lparr>enabled = True, color = c, dm_gradientWidth = Some w\<rparr> \<longrightarrow>
      gradientStyle_v1 p ''--gradient-color'' = Some (Str c)
      \<and> gradientStyle_v1 p ''--gradient-width'' = Some (Template [] w ''px'')
      \<and> gradientStyle_v1 (p\<lparr>gradientColor := gc, gradientWidth := gw\<rparr>) = gradientStyle_v1 p)
   \<and> (darkModeGradient p = None \<or> (\<exists>d. darkModeGradient p = Some d \<and> \<not> enabled d) \<longrightarrow>
      gradientStyle_v1 p ''--gradient-color'' = Some (Str (gradientColor p))
      \<and> gradientStyle_v1 p ''--gradient-width'' =
          Some (case gradientWidth p of Num n \<Rightarrow> Template [] n ''px'' | S s \<Rightarrow> Str s))"
proof -
  have on: "gradientStyle_v1 p ''--gradient-color'' = Some (Str c)
      \<and> gradientStyle_v1 p ''--gradient-width'' = Some (Template [] w ''px'')
      \<and> gradientStyle_v1 (p\<lparr>gradientColor := gc, gradientWidth := gw\<rparr>) = gradientStyle_v1 p"
    if "darkModeGradient p = Some \<lparr>enabled = True, color = c, dm_gradientWidth = Some w\<rparr>"
    using that by (simp add: gradientStyle_v1_def)
  have off: "gradientStyle_v1 p ''--gradient-color'' = Some (Str (gradientColor p))
      \<and> gradientStyle_v1 p ''--gradient-width'' =
          Some (case gradientWidth p of Num n \<Rightarrow> Template [] n ''px'' | S s \<Rightarrow> Str s)"
    if "darkModeGradient p = None \<or> (\<exists>d. darkModeGradient p = Some d \<and> \<not> enabled d)"
    using that by (cases "gradientWidth p") (auto simp add: gradientStyle_v1_def)
  from on off show ?thesis by blast
qed

text \<open>
  The scenario of the specification: black and 80 pixels when enabled, the defaults
  (white, 200 pixels) when not enabled or absent.
\<close>

theorem gradientStyle_dark_mode_witness:
  "gradientStyle_v1
     ((default_props_v1 :: nat props_v1)\<lparr>darkModeGradient :=
        Some \<lparr>enabled = True, color = ''black'', dm_gradientWidth = Some (Fin 80)\<rparr>\<rparr>)
     ''--gradient-color'' = Some (Str ''black'')
   \<and> gradientStyle_v1
     ((default_props_v1 :: nat props_v1)\<lparr>darkModeGradient :=
        Some \<lparr>enabled = True, color = ''black'', dm_gradientWidth = Some (Fin 80)\<rparr>\<rparr>)
     ''--gradient-width'' = Some (Template [] (Fin 80) ''px'')
   \<and> gradientStyle_v1
     ((default_props_v1 :: nat props_v1)\<lparr>darkModeGradient :=
        Some \<lparr>enabled = False, color = ''black'', dm_gradientWidth = Some (Fin 80)\<rparr>\<rparr>)
     ''--gradient-color'' = Some (Str ''white'')
   \<and> gradientStyle_v1
     ((default_props_v1 :: nat props_v1)\<lparr>darkModeGradient :=
        Some \<lparr>enabled = False, color = ''black'', dm_gradientWidth = Some (Fin 80)\<rparr>\<rparr>)
     ''--gradient-width'' = Some (Template [] (Fin 200) ''px'')
   \<and> gradientStyle_v1 (default_props_v1 :: nat props_v1) ''--gradient-width''
       = Some (Template [] (Fin 200) ''px'')"
  using
    gradientStyle_dark_mode [of "(default_props_v1 :: nat props_v1)\<lparr>darkModeGradient :=
        Some \<lparr>enabled = True, color = ''black'', dm_gradientWidth = Some (Fin 80)\<rparr>\<rparr>"
      "''black''" "Fin 80"]
    gradientStyle_dark_mode [of "(default_props_v1 :: nat props_v1)\<lparr>darkModeGradient :=
        Some \<lparr>enabled = False, color = ''black'', dm_gradientWidth = Some (Fin 80)\<rparr>\<rparr>"]
    gradientStyle_dark_mode [of "default_props_v1 :: nat props_v1"]
  by (simp add: default_props_v1_def)

text \<open>
  Claim C8. With \<^verbatim>\<open>play = false\<close> the three play-state parameters \<^verbatim>\<open>--play\<close>,
  \<^verbatim>\<open>--pause-on-hover\<close> and \<^verbatim>\<open>--pause-on-click\<close> are \<^verbatim>\<open>paused\<close> in variant 1 (\<open>p1\<close>) and in
  variant 2 (\<open>p2\<close>), whatever the other props and the caller's \<^verbatim>\<open>style\<close> are.
\<close>

theorem play_false_paused:
  "(\<not> play p1 \<longrightarrow>
      marqueeStyle p1 st1 ''--play'' = Some (Str ''paused'')
      \<and> containerStyle_v1 p1 ''--pause-on-hover'' = Some (Str ''paused'')
      \<and> containerStyle_v1 p1 ''--pause-on-click'' = Some (Str ''paused''))
   \<and> (\<not> play p2 \<longrightarrow>
      marqueeStyle p2 st2 ''--play'' = Some (Str ''paused'')
      \<and> containerStyle_v2 p2 ''--pause-on-hover'' = Some (Str ''paused'')
      \<and> containerStyle_v2 p2 ''--pause-on-click'' = Some (Str ''paused''))"
  by (simp add: marqueeStyle_def containerStyle_v1_def containerStyle_v2_def)

text \<open>The default props of each variant with \<^verbatim>\<open>play\<close> switched off.\<close>

theorem play_false_paused_witness:
  "marqueeStyle ((default_props_v1 :: nat props_v1)\<lparr>play := False\<rparr>) initial_state ''--play''
     = Some (Str ''paused'')
   \<and> containerStyle_v1 ((default_props_v1 :: nat props_v1)\<lparr>play := False\<rparr>) ''--pause-on-hover''
     = Some (Str ''paused'')
   \<and> containerStyle_v1 ((default_props_v1 :: nat props_v1)\<lparr>play := False\<rparr>) ''--pause-on-click''
     = Some (Str ''paused'')
   \<and> marqueeStyle ((default_props_v2 :: nat props_v2)\<lparr>play := False\<rparr>) initial_state_v2 ''--play''
     = Some (Str ''paused'')
   \<and> containerStyle_v2 ((default_props_v2 :: nat props_v2)\<lparr>play := False\<rparr>) ''--pause-on-hover''
     = Some (Str ''paused'')
   \<and> containerStyle_v2 ((default_props_v2 :: nat props_v2)\<lparr>play := False\<rparr>) ''--pause-on-click''
     = Some (Str ''paused'')"
  using play_false_paused [of "(default_props_v1 :: nat props_v1)\<lparr>play := False\<rparr>" initial_state
      "(default_props_v2 :: nat props_v2)\<lparr>play := False\<rparr>" initial_state_v2]
  by (simp add: default_props_v1_def default_props_v2_def)

text \<open>
  Claim C10. \<^verbatim>\<open>--pause-on-click\<close> is \<^verbatim>\<open>paused\<close> exactly when \<^verbatim>\<open>play\<close> is false, or
  \<^verbatim>\<open>pauseOnClick\<close> is true, or \<^verbatim>\<open>pauseOnHover\<close> is true and \<^verbatim>\<open>pauseOnClick\<close> false, or, in
  variant 2 only, \<^verbatim>\<open>draggable\<close> is true; it is \<^verbatim>\<open>running\<close> otherwise. So a draggable
  marquee of variant 2 has it \<^verbatim>\<open>paused\<close> whatever \<^verbatim>\<open>play\<close> and \<^verbatim>\<open>pauseOnClick\<close> are.
\<close>

theorem pause_on_click_condition:
  "containerStyle_v1 p1 ''--pause-on-click'' =
     Some (if \<not> play p1 \<or> pauseOnClick p1 \<or> (pauseOnHover p1 \<and> \<not> pauseOnClick p1)
           then Str ''paused'' else Str ''running'')
   \<and> containerStyle_v2 p2 ''--pause-on-click'' =
     Some (if \<not> play p2 \<or> pauseOnClick p2 \<or> (pauseOnHover p2 \<and> \<not> pauseOnClick p2)
              \<or> draggable p2
           then Str ''paused'' else Str ''running'')
   \<and> (draggable p2 \<longrightarrow> containerStyle_v2 p2 ''--pause-on-click'' = Some (Str ''paused''))"
  by (auto simp add: containerStyle_v1_def containerStyle_v2_def)

text \<open>
  Draggable alone pauses in variant 2; the defaults run in both variants; hover-pause
  alone pauses in variant 1.
\<close>

theorem pause_on_click_condition_witness:
  "containerStyle_v2 ((default_props_v2 :: nat props_v2)\<lparr>draggable := True\<rparr>) ''--pause-on-click''
     = Some (Str ''paused'')
   \<and> containerStyle_v2 (default_props_v2 :: nat props_v2) ''--pause-on-click''
     = Some (Str ''running'')
   \<and> containerStyle_v1 (default_props_v1 :: nat props_v1) ''--pause-on-click''
     = Some (Str ''running'')
   \<and> containerStyle_v1 ((default_props_v1 :: nat props_v1)\<lparr>pauseOnHover := True\<rparr>) ''--pause-on-click''
     = Some (Str ''paused'')"
  using pause_on_click_condition [of "default_props_v1 :: nat props_v1"
        "(default_props_v2 :: nat props_v2)\<lparr>draggable := True\<rparr>"]
    pause_on_click_condition [of "(default_props_v1 :: nat props_v1)\<lparr>pauseOnHover := True\<rparr>"
        "default_props_v2 :: nat props_v2"]
  by (simp add: default_props_v1_def default_props_v2_def)

section \<open>Verification: the mount callback\<close>

lemma useEffect_no_deps_later:
  "useEffect effect (\<lambda>p. ([] :: unit list)) (Some []) ps = []"
  by (induction ps) simp_all

text \<open>Variant 2 runs the effect after the first commit and never again.\<close>

lemma onMount_calls_v2_once:
  "onMount_calls_v2 (p # ps) = onMount_effect p"
  by (simp add: onMount_calls_v2_def useEffect_no_deps_later)

lemma useEffect_same_deps_later:
  assumes "\<forall>q \<in> set ps. deps q = d"
  shows "useEffect effect deps (Some d) ps = []"
  using assms by (induction ps) simp_all

text \<open>Variant 1 does so as long as every commit is given the same function.\<close>

lemma onMount_calls_v1_stable:
  assumes "\<forall>q \<in> set ps. onMount q = onMount p"
  shows "onMount_calls_v1 (p # ps) = onMount_effect p"
  using assms by (simp add: onMount_calls_v1_def useEffect_same_deps_later)

text \<open>
  Claim C4. The mount callback is to be invoked exactly once in the life of an instance.
  Variant 1 lists \<^verbatim>\<open>onMount\<close> as a dependency of the effect: an instance committed twice,
  the second time with another function as \<^verbatim>\<open>onMount\<close>, invokes the callback prop twice,
  where variant 2 invokes it once.
\<close>

theorem onMount_calls_v1_twice:
  "onMount_calls_v1
     [(default_props_v1 :: nat props_v1)\<lparr>onMount := Some 0\<rparr>,
      (default_props_v1 :: nat props_v1)\<lparr>onMount := Some 1\<rparr>] = [0, 1]
   \<and> onMount_calls_v2
     [(default_props_v2 :: nat props_v2)\<lparr>onMount := Some 0\<rparr>,
      (default_props_v2 :: nat props_v2)\<lparr>onMount := Some 1\<rparr>] = [0]"
  by (simp add: onMount_calls_v1_def onMount_calls_v2_def onMount_effect_def)

section \<open>Verification: the drag controller\<close>

subsection \<open>The search for the pattern is the pattern\<close>







text \<open>The pieces of the split, joined at the separator, are the string again.\<close>

lemma split_comma_space_not_Nil: "split_comma_space acc s \<noteq> []"
  by (induction acc s rule: split_comma_space.induct) (auto split: list.splits)

lemma join_Cons: "ys \<noteq> [] \<Longrightarrow> join_comma_space (x # ys) = x @ '', '' @ join_comma_space ys"
  by (cases ys) simp_all

lemma join_split_comma_space:
  "join_comma_space (split_comma_space acc s) = rev acc @ s"
  by (induction acc s rule: split_comma_space.induct)
    (auto split: list.splits simp add: join_Cons split_comma_space_not_Nil)



subsection \<open>Reading the position and dragging\<close>






end
